theory Spec2Isabelle
  imports Complex_Main
begin

section \<open>Common conventions\<close>

text \<open>
  The engine is a C++ template library over a floating-point \<open>sample_type\<close>.  Samples are
  modelled as real numbers: the comparisons, branches and data flow of the code are kept as
  written, while rounding, infinities and NaN are outside the model.

  A call either returns, throws a C++ exception to its caller, or trips an \<open>assert\<close>, which
  terminates the process instead of reporting anything to the caller.  Undefined behaviour
  (a store past the end of a vector, a null pointer dereference) is a failure of its own.
\<close>

datatype cpp_exception =
    runtime_error string
  | invalid_argument string
  | out_of_range string
  | bad_alloc

datatype failure =
    Throw cpp_exception
  | AssertAbort
  | UndefinedBehaviour

type_synonym 'a result = "failure + 'a"

text \<open>
  \<open>assert(cond)\<close> from \<open><cassert>\<close>: when the build defines \<open>NDEBUG\<close> the macro expands to
  nothing; otherwise a false condition aborts the program.
\<close>

definition cassert :: "bool \<Rightarrow> bool \<Rightarrow> 'a result \<Rightarrow> 'a result" where
  "cassert ndebug cond k = (if \<not> ndebug \<and> \<not> cond then Inl AssertAbort else k)"

text \<open>\<open>std::clamp(v, lo, hi)\<close>.\<close>

definition std_clamp :: "real \<Rightarrow> real \<Rightarrow> real \<Rightarrow> real" where
  "std_clamp v lo hi = (if v < lo then lo else if hi < v then hi else v)"

section \<open>Oscillator base class (Oscillator.h)\<close>

record oscillator =
  m_frequency :: real
  m_amplitude :: real
  m_phase :: real

text \<open>The in-class member initialisers: 440 Hz, amplitude 1, phase 0.\<close>

definition Oscillator_init :: oscillator where
  "Oscillator_init = \<lparr>m_frequency = 440, m_amplitude = 1, m_phase = 0\<rparr>"

definition setFrequency ::
  "bool \<Rightarrow> real \<Rightarrow> 'a oscillator_scheme \<Rightarrow> 'a oscillator_scheme result" where
  "setFrequency ndebug frequency osc =
     cassert ndebug (frequency > 0) (Inr (osc\<lparr>m_frequency := frequency\<rparr>))"

definition setAmplitude ::
  "bool \<Rightarrow> real \<Rightarrow> 'a oscillator_scheme \<Rightarrow> 'a oscillator_scheme result" where
  "setAmplitude ndebug amplitude osc =
     cassert ndebug (amplitude \<ge> 0) (Inr (osc\<lparr>m_amplitude := amplitude\<rparr>))"

definition setPhase :: "real \<Rightarrow> 'a oscillator_scheme \<Rightarrow> 'a oscillator_scheme" where
  "setPhase phase osc = osc\<lparr>m_phase := phase\<rparr>"

definition Oscillator_setParameter ::
  "bool \<Rightarrow> string \<Rightarrow> real \<Rightarrow> 'a oscillator_scheme \<Rightarrow> 'a oscillator_scheme result" where
  "Oscillator_setParameter ndebug name v osc =
     (if name = ''frequency'' then setFrequency ndebug v osc
      else if name = ''amplitude'' then setAmplitude ndebug v osc
      else if name = ''phase'' then Inr (setPhase v osc)
      else Inl (Throw (invalid_argument (''Unknown parameter: '' @ name))))"

definition Oscillator_getParameter :: "string \<Rightarrow> 'a oscillator_scheme \<Rightarrow> real result" where
  "Oscillator_getParameter name osc =
     (if name = ''frequency'' then Inr (m_frequency osc)
      else if name = ''amplitude'' then Inr (m_amplitude osc)
      else if name = ''phase'' then Inr (m_phase osc)
      else Inl (Throw (invalid_argument (''Unknown parameter: '' @ name))))"

definition reset :: "'a oscillator_scheme \<Rightarrow> 'a oscillator_scheme" where
  "reset osc = osc\<lparr>m_phase := 0\<rparr>"

subsection \<open>PulseOsc: the one subclass with a field of its own\<close>

record pulse_osc = oscillator +
  m_pulseWidth :: real

definition PulseOsc_init :: pulse_osc where
  "PulseOsc_init = \<lparr>m_frequency = 440, m_amplitude = 1, m_phase = 0, m_pulseWidth = 1 / 2\<rparr>"

definition setPulseWidth :: "real \<Rightarrow> pulse_osc \<Rightarrow> pulse_osc" where
  "setPulseWidth pulseWidth osc = osc\<lparr>m_pulseWidth := std_clamp pulseWidth 0 1\<rparr>"

definition PulseOsc_setParameter ::
  "bool \<Rightarrow> string \<Rightarrow> real \<Rightarrow> pulse_osc \<Rightarrow> pulse_osc result" where
  "PulseOsc_setParameter ndebug name v osc =
     (if name = ''pulseWidth'' then Inr (setPulseWidth v osc)
      else Oscillator_setParameter ndebug name v osc)"

subsection \<open>PolyBLEP edge correction (Oscillator::polyBlep)\<close>

text \<open>
  The parameter \<open>time\<close> is passed by value and overwritten inside each branch; the model
  rebinds it with \<open>let\<close>.  Both copies of the function in the sources have this body.
\<close>

definition polyBlep :: "real \<Rightarrow> real \<Rightarrow> real" where
  "polyBlep time deltaTime =
     (if time < deltaTime then
        (let time = time / deltaTime in time + time - time * time - 1)
      else if time > 1 - deltaTime then
        (let time = (time - 1) / deltaTime in time * time + time + time + 1)
      else 0)"

section \<open>GainModule parameters\<close>

text \<open>The only state of a GainModule is \<open>m_gain\<close>; both accessors return normally.\<close>

definition MAX_GAIN :: real where
  "MAX_GAIN = 10"

definition GainModule_setParameter :: "string \<Rightarrow> real \<Rightarrow> real \<Rightarrow> real" where
  "GainModule_setParameter name v m_gain =
     (if name = ''Gain'' then std_clamp v 0 MAX_GAIN else m_gain)"

definition GainModule_getParameter :: "string \<Rightarrow> real \<Rightarrow> real" where
  "GainModule_getParameter name m_gain = (if name = ''Gain'' then m_gain else 0)"

section \<open>Constants (Constants.h)\<close>

text \<open>The decimal literal of the header, before it is rounded to \<open>sample_type\<close>.\<close>

definition piConstant :: real where
  "piConstant = 314159265358979323846 / 100000000000000000000"

definition twoPiConstant :: real where
  "twoPiConstant = 2 * piConstant"

section \<open>Scalar oscillator step (SineOsc::processScalar in Oscillator.h)\<close>

text \<open>
  A modulation input is an optional pointer; the argument \<open>fm\<close> (\<open>am\<close>) is the sample read
  through it at the current frame index, or \<open>None\<close> when the input is not bound.
\<close>

definition applyModulationScalar ::
  "real \<Rightarrow> real \<Rightarrow> real option \<Rightarrow> real option \<Rightarrow> real \<times> real" where
  "applyModulationScalar freq amp fm am =
     (let freq = (case fm of Some x \<Rightarrow> freq + x | None \<Rightarrow> freq);
          amp = (case am of Some x \<Rightarrow> amp * x | None \<Rightarrow> amp)
      in (freq, amp))"

definition wrapPhaseScalar :: "real \<Rightarrow> real" where
  "wrapPhaseScalar phase =
     (if phase \<ge> twoPiConstant then phase - twoPiConstant else phase)"

text \<open>
  The body of the \<open>for\<close> loop of \<open>processScalar\<close>, for one frame: the sample written to the
  output and the phase carried to the next frame.  The other oscillators of the header
  have the same loop with another expression for the output sample; the two statements
  that update the phase are the same in all of them.
\<close>

definition processScalar_step ::
  "real \<Rightarrow> real \<Rightarrow> real \<Rightarrow> real option \<Rightarrow> real option \<Rightarrow> real \<Rightarrow> real \<times> real" where
  "processScalar_step baseFrequency baseAmplitude sampleRate fm am phase =
     (let (currentFrequency, currentAmplitude) =
            applyModulationScalar baseFrequency baseAmplitude fm am;
          out = currentAmplitude * sin phase;
          phase = phase + currentFrequency * twoPiConstant / sampleRate
      in (out, wrapPhaseScalar phase))"

section \<open>Phase accumulator (Phasor.h)\<close>

text \<open>
  \<open>std::fmod x y\<close> is \<open>x - n * y\<close>, with \<open>n\<close> the quotient \<open>x / y\<close> truncated towards zero, so
  the result has the sign of \<open>x\<close>.  For \<open>y = 0\<close> the C function returns NaN, which the reals
  do not have; statements about the value of \<open>fmod\<close> assume a positive period.
\<close>

definition trunc :: "real \<Rightarrow> int" where
  "trunc x = (if 0 \<le> x then \<lfloor>x\<rfloor> else \<lceil>x\<rceil>)"

definition fmod :: "real \<Rightarrow> real \<Rightarrow> real" where
  "fmod x y = x - of_int (trunc (x / y)) * y"

text \<open>
  The members \<open>phase_\<close> and \<open>phase_inc_\<close> are written \<open>phasor_phase\<close> and \<open>phasor_phase_inc\<close>
  (an identifier cannot end in an underscore here).
\<close>

record phasor =
  phasor_phase :: real
  phasor_phase_inc :: real
  freq_factor :: real

definition Phasor_init :: phasor where
  "Phasor_init = \<lparr>phasor_phase = 0, phasor_phase_inc = 0, freq_factor = 0\<rparr>"

text \<open>
  The template argument \<open>wrap_arg\<close> (an unsigned integer, 1 by default) is an explicit
  parameter of everything below; \<open>wrap()\<close> converts it to the internal type.
\<close>

definition wrap :: "nat \<Rightarrow> real" where
  "wrap wrap_arg = real wrap_arg"

definition Phasor_setFrequency :: "nat \<Rightarrow> real \<Rightarrow> phasor \<Rightarrow> phasor" where
  "Phasor_setFrequency wrap_arg new_frequency P =
     P\<lparr>phasor_phase_inc := new_frequency * wrap wrap_arg\<rparr>"

definition Phasor_setPhase :: "real \<Rightarrow> phasor \<Rightarrow> phasor" where
  "Phasor_setPhase new_phase P = P\<lparr>phasor_phase := new_phase\<rparr>"

definition setInvSamplerate :: "nat \<Rightarrow> real \<Rightarrow> phasor \<Rightarrow> phasor" where
  "setInvSamplerate wrap_arg inv_samplerate P =
     P\<lparr>freq_factor := inv_samplerate * wrap wrap_arg\<rparr>"

text \<open>
  \<open>phasorComputeSample\<close> updates \<open>phase\<close> through a reference and returns the sample: the
  model returns the pair (sample, new phase).
\<close>

definition phasorComputeSample :: "real \<Rightarrow> real \<Rightarrow> real \<Rightarrow> real \<times> real" where
  "phasorComputeSample phase phase_inc w =
     (let phase = phase + phase_inc;
          phase = fmod phase w
      in (phase, phase))"

definition computeSample :: "nat \<Rightarrow> real \<Rightarrow> real \<Rightarrow> real \<times> real" where
  "computeSample wrap_arg phase phase_inc = phasorComputeSample phase phase_inc (wrap wrap_arg)"

text \<open>
  An output buffer is the list of its samples, and the running pointer \<open>outSample\<close> is the
  index \<open>i\<close> into it.  A store past the end of the buffer is undefined behaviour in C++:
  the model stops with \<open>None\<close>.

  \<open>phasorPerform<n>(out, phase, phase_inc, wrap)\<close>: the compile-time recursion on \<open>n\<close>.
\<close>

fun phasorPerform ::
  "nat \<Rightarrow> real list \<Rightarrow> nat \<Rightarrow> real \<Rightarrow> real \<Rightarrow> real \<Rightarrow> (real list \<times> real) option" where
  "phasorPerform 0 out i phase phase_inc w = Some (out, phase)"
| "phasorPerform (Suc n) out i phase phase_inc w =
     (if i < length out then
        (let (s, phase) = phasorComputeSample phase phase_inc w
         in phasorPerform n (out[i := s]) (Suc i) phase phase_inc w)
      else None)"

text \<open>The \<open>while (n > 0)\<close> loop of \<open>perform(out, n)\<close>.\<close>

fun perform_loop ::
  "nat \<Rightarrow> nat \<Rightarrow> real list \<Rightarrow> nat \<Rightarrow> real \<Rightarrow> real \<Rightarrow> (real list \<times> real) option" where
  "perform_loop wrap_arg 0 out i phase phase_inc = Some (out, phase)"
| "perform_loop wrap_arg (Suc n) out i phase phase_inc =
     (if i < length out then
        (let (s, phase) = computeSample wrap_arg phase phase_inc
         in perform_loop wrap_arg n (out[i := s]) (Suc i) phase phase_inc)
      else None)"

definition perform :: "nat \<Rightarrow> real list \<Rightarrow> nat \<Rightarrow> phasor \<Rightarrow> (real list \<times> phasor) option" where
  "perform wrap_arg out n P =
     (case perform_loop wrap_arg n out 0 (phasor_phase P) (phasor_phase_inc P) of
        None \<Rightarrow> None
      | Some (out, phase) \<Rightarrow> Some (out, P\<lparr>phasor_phase := phase\<rparr>))"

text \<open>The \<open>while (n > 0)\<close> loop of \<open>perform8(out, n)\<close>, entered after \<open>n /= 8\<close>.\<close>

fun perform8_loop ::
  "nat \<Rightarrow> nat \<Rightarrow> real list \<Rightarrow> nat \<Rightarrow> real \<Rightarrow> real \<Rightarrow> (real list \<times> real) option" where
  "perform8_loop wrap_arg 0 out i phase phase_inc = Some (out, phase)"
| "perform8_loop wrap_arg (Suc n) out i phase phase_inc =
     (case phasorPerform 8 out i phase phase_inc (wrap wrap_arg) of
        None \<Rightarrow> None
      | Some (out, phase) \<Rightarrow> perform8_loop wrap_arg n out (i + 8) phase phase_inc)"

definition perform8 :: "nat \<Rightarrow> real list \<Rightarrow> nat \<Rightarrow> phasor \<Rightarrow> (real list \<times> phasor) option" where
  "perform8 wrap_arg out n P =
     (let n = n div 8 in
      case perform8_loop wrap_arg n out 0 (phasor_phase P) (phasor_phase_inc P) of
        None \<Rightarrow> None
      | Some (out, phase) \<Rightarrow> Some (out, P\<lparr>phasor_phase := phase\<rparr>))"

section \<open>Patch graph engine (ModularSystem.h)\<close>

text \<open>
  Sequencing of calls that may fail: the first failure ends the sequence, as an exception
  or an abort would.  A failed call returns the failure only.
\<close>

definition and_then :: "'a result \<Rightarrow> ('a \<Rightarrow> 'b result) \<Rightarrow> 'b result" where
  "and_then r k = (case r of Inl e \<Rightarrow> Inl e | Inr x \<Rightarrow> k x)"

text \<open>
  A connection.  The struct in the header declares the two index members as vectors named
  \<open>outputIndices\<close> and \<open>inputIndices\<close>, but every member function of the engine reads and
  writes the scalars \<open>outputIndex\<close> and \<open>inputIndex\<close> (as \<open>Connection\<close> in SynthDef.h has them);
  the model follows the functions.
\<close>

record connection =
  fromModule :: string
  outputIndex :: nat
  toModule :: string
  inputIndex :: nat

text \<open>
  The audio buffers are one vector of samples per registered module.  The pointers handed
  to a node are \<open>m_audioBuffers[k].data()\<close>, so a pointer is modelled as the index \<open>k\<close> of a
  buffer, and two inputs bound to the same index alias the same samples.

  A node is an object behind the abstract \<open>Module\<close> interface.  Its virtual functions
  become fields holding functions and its private DSP state becomes the field \<open>state\<close>.
  \<open>Module_process\<close> receives the optional input pointers, the output pointers, the frame
  count and the buffers.  It is a virtual call into arbitrary node code: it either returns
  the buffers and the node state after the call, or fails in any of the ways a call can
  (an exception, an assertion, undefined behaviour).
\<close>

type_synonym buffers = "real list list"

record 's module =
  getNumInputs :: nat
  getNumOutputs :: nat
  state :: 's
  Module_process ::
    "'s \<Rightarrow> nat option list \<Rightarrow> nat list \<Rightarrow> nat \<Rightarrow> buffers \<Rightarrow> (buffers \<times> 's) result"

text \<open>
  \<open>m_modules\<close> is an unordered map.  It is modelled as the list of its entries in iteration
  order, with distinct keys; \<open>m_modules_find\<close> is \<open>m_modules.find(name)\<close>, returning the
  distance of the iterator from \<open>begin()\<close>, or \<open>None\<close> for \<open>end()\<close>.
\<close>

record 's modular_system =
  m_modules :: "(string \<times> 's module) list"
  m_connections :: "connection list"
  m_audioBuffers :: buffers

fun m_modules_find :: "(string \<times> 'm) list \<Rightarrow> string \<Rightarrow> nat option" where
  "m_modules_find [] name = None"
| "m_modules_find ((k, v) # rest) name =
     (if k = name then Some 0 else map_option Suc (m_modules_find rest name))"

definition does_not_exist :: "string \<Rightarrow> cpp_exception" where
  "does_not_exist name = runtime_error (''Module '' @ [CHR 0x27] @ name @ [CHR 0x27] @ '' does not exist.'')"

definition connect ::
  "string \<Rightarrow> nat \<Rightarrow> string \<Rightarrow> nat \<Rightarrow> 's modular_system \<Rightarrow> 's modular_system result" where
  "connect fromM outputIdx toM inputIdx sys =
     (if m_modules_find (m_modules sys) fromM = None then Inl (Throw (does_not_exist fromM))
      else if m_modules_find (m_modules sys) toM = None then Inl (Throw (does_not_exist toM))
      else Inr (sys\<lparr>m_connections := m_connections sys @
                  [\<lparr>fromModule = fromM, outputIndex = outputIdx,
                    toModule = toM, inputIndex = inputIdx\<rparr>]\<rparr>))"

text \<open>\<open>std::find_if\<close> followed by \<open>erase\<close> of the iterator it returns, if any.\<close>

fun erase_first :: "('a \<Rightarrow> bool) \<Rightarrow> 'a list \<Rightarrow> 'a list" where
  "erase_first P [] = []"
| "erase_first P (x # xs) = (if P x then xs else x # erase_first P xs)"

definition disconnect ::
  "string \<Rightarrow> nat \<Rightarrow> string \<Rightarrow> nat \<Rightarrow> 's modular_system \<Rightarrow> 's modular_system" where
  "disconnect fromM outputIdx toM inputIdx sys =
     sys\<lparr>m_connections :=
           erase_first (\<lambda>conn. fromModule conn = fromM \<and> outputIndex conn = outputIdx
                               \<and> toModule conn = toM \<and> inputIndex conn = inputIdx)
             (m_connections sys)\<rparr>"

text \<open>\<open>std::vector::resize\<close>: cut to \<open>n\<close> elements or pad with value-initialised ones.\<close>

definition vector_resize :: "nat \<Rightarrow> 'a \<Rightarrow> 'a list \<Rightarrow> 'a list" where
  "vector_resize n d xs = take n xs @ replicate (n - length xs) d"

text \<open>
  Growing a vector allocates, and an allocation can fail with \<open>std::bad_alloc\<close>.  The state
  of the heap is the parameter \<open>alloc\<close>: the largest number of elements a vector can be
  grown to.  A vector that does not grow is never refused.
\<close>

definition vector_resize_alloc :: "nat \<Rightarrow> nat \<Rightarrow> 'a \<Rightarrow> 'a list \<Rightarrow> 'a list result" where
  "vector_resize_alloc alloc n d xs =
     (if length xs < n \<and> alloc < n then Inl (Throw bad_alloc)
      else Inr (vector_resize n d xs))"

text \<open>The loop \<open>for (auto &buffer : m_audioBuffers) buffer.resize(numFrames)\<close>.\<close>

fun resize_each :: "nat \<Rightarrow> nat \<Rightarrow> buffers \<Rightarrow> buffers result" where
  "resize_each alloc numFrames [] = Inr []"
| "resize_each alloc numFrames (buffer # rest) =
     and_then (vector_resize_alloc alloc numFrames 0 buffer)
       (\<lambda>buffer. and_then (resize_each alloc numFrames rest)
          (\<lambda>rest. Inr (buffer # rest)))"

text \<open>
  The inner loop of \<open>process\<close> ("Set up connections") for the module \<open>name\<close>: every
  connection into \<open>name\<close> whose source is registered assigns the source's buffer pointer to
  \<open>inputs[conn.inputIndex]\<close>.  The store is a plain assignment, so a later connection into
  the same slot replaces the pointer an earlier one left there.  An index outside \<open>inputs\<close>
  is an out-of-bounds vector store: undefined behaviour.
\<close>

fun setUpConnections ::
  "(string \<times> 'm) list \<Rightarrow> string \<Rightarrow> connection list \<Rightarrow> nat option list
     \<Rightarrow> nat option list option" where
  "setUpConnections mods name [] inputs = Some inputs"
| "setUpConnections mods name (conn # conns) inputs =
     (if toModule conn = name then
        (case m_modules_find mods (fromModule conn) of
           None \<Rightarrow> setUpConnections mods name conns inputs
         | Some bufferIndex \<Rightarrow>
             if inputIndex conn < length inputs then
               setUpConnections mods name conns (inputs[inputIndex conn := Some bufferIndex])
             else None)
      else setUpConnections mods name conns inputs)"

text \<open>
  The outer loop of \<open>process\<close> over the entries of \<open>m_modules\<close>, in iteration order.  For
  each module: \<open>inputs.resize\<close>, the inner loop, one \<open>push_back\<close> of the module's own buffer
  per output, and the virtual call, whose failure ends \<open>process\<close>.
\<close>

fun process_loop ::
  "nat \<Rightarrow> nat \<Rightarrow> (string \<times> 's module) list \<Rightarrow> 's modular_system
     \<Rightarrow> 's modular_system result" where
  "process_loop alloc numFrames [] sys = Inr sys"
| "process_loop alloc numFrames ((name, node) # rest) sys =
     and_then (vector_resize_alloc alloc (getNumInputs node) None [])
       (\<lambda>inputs.
          case setUpConnections (m_modules sys) name (m_connections sys) inputs of
            None \<Rightarrow> Inl UndefinedBehaviour
          | Some inputs \<Rightarrow>
              (case m_modules_find (m_modules sys) name of
                 None \<Rightarrow> Inl UndefinedBehaviour
               | Some moduleIndex \<Rightarrow>
                   and_then (vector_resize_alloc alloc (getNumOutputs node) moduleIndex [])
                     (\<lambda>outputs.
                        and_then (Module_process node (state node) inputs outputs numFrames
                                    (m_audioBuffers sys))
                          (\<lambda>(bufs, st).
                             process_loop alloc numFrames rest
                               (sys\<lparr>m_modules :=
                                      (m_modules sys)
                                        [moduleIndex := (name, node\<lparr>state := st\<rparr>)],
                                    m_audioBuffers := bufs\<rparr>)))))"

definition process :: "nat \<Rightarrow> nat \<Rightarrow> 's modular_system \<Rightarrow> 's modular_system result" where
  "process alloc numFrames sys =
     and_then (vector_resize_alloc alloc (length (m_modules sys)) [] (m_audioBuffers sys))
       (\<lambda>bufs. and_then (resize_each alloc numFrames bufs)
          (\<lambda>bufs. process_loop alloc numFrames (m_modules sys)
                     (sys\<lparr>m_audioBuffers := bufs\<rparr>)))"

subsection \<open>The loop, one module at a time\<close>


definition last_writer ::
  "(string \<times> 'm) list \<Rightarrow> string \<Rightarrow> connection list \<Rightarrow> nat \<Rightarrow> nat option" where
  "last_writer mods name conns slot =
     (let ps = filter (\<lambda>conn. toModule conn = name \<and> inputIndex conn = slot
                               \<and> m_modules_find mods (fromModule conn) \<noteq> None) conns
      in if ps = [] then None else m_modules_find mods (fromModule (last ps)))"

subsection \<open>GainModule as a node\<close>

text \<open>
  \<open>SIMDOperations::multiply\<close> stores \<open>input[i] * gain\<close> in \<open>output[i]\<close> for every \<open>i\<close> below
  \<open>numFrames\<close>, eight lanes at a time and then one by one; lane \<open>i\<close> depends on \<open>input[i]\<close>
  only, so the model is the one-by-one loop.  \<open>inp\<close> and \<open>outp\<close> are the two buffer
  pointers; an access outside a buffer is undefined behaviour.
\<close>

fun multiply :: "nat \<Rightarrow> nat \<Rightarrow> nat \<Rightarrow> nat \<Rightarrow> real \<Rightarrow> buffers \<Rightarrow> buffers result" where
  "multiply inp outp i 0 gain bufs = Inr bufs"
| "multiply inp outp i (Suc n) gain bufs =
     (if inp < length bufs \<and> outp < length bufs
         \<and> i < length (bufs ! inp) \<and> i < length (bufs ! outp)
      then multiply inp outp (Suc i) n gain
             (bufs[outp := (bufs ! outp)[i := bufs ! inp ! i * gain]])
      else Inl UndefinedBehaviour)"

text \<open>
  \<open>GainModule::process\<close> declares its inputs as plain pointers where the engine passes
  optional pointers; an unbound input is taken as the null pointer.  The function reads
  \<open>inputs[0]\<close> without a null check, so an unbound first input is a null pointer
  dereference.
\<close>

definition GainModule_process ::
  "real \<Rightarrow> nat option list \<Rightarrow> nat list \<Rightarrow> nat \<Rightarrow> buffers \<Rightarrow> (buffers \<times> real) result" where
  "GainModule_process m_gain inputs outputs numFrames bufs =
     (if inputs = [] \<or> outputs = [] \<or> numFrames = 0 then Inr (bufs, m_gain)
      else (case inputs ! 0 of
              None \<Rightarrow> Inl UndefinedBehaviour
            | Some inp \<Rightarrow>
                and_then (multiply inp (outputs ! 0) 0 numFrames m_gain bufs)
                  (\<lambda>bufs. Inr (bufs, m_gain))))"

definition GainModule :: "real \<Rightarrow> real module" where
  "GainModule m_gain =
     \<lparr>getNumInputs = 1, getNumOutputs = 1, state = m_gain,
      Module_process = GainModule_process\<rparr>"

subsection \<open>A constant source for examples\<close>

text \<open>
  Not part of the engine: a node without inputs that fills its output with a constant, as
  the nodes "emitting" a fixed value in the examples of the specification do.
\<close>

definition ConstSource_process ::
  "real \<Rightarrow> nat option list \<Rightarrow> nat list \<Rightarrow> nat \<Rightarrow> buffers \<Rightarrow> (buffers \<times> real) result" where
  "ConstSource_process c inputs outputs numFrames bufs =
     (if outputs = [] \<or> numFrames = 0 then Inr (bufs, c)
      else (let outp = outputs ! 0 in
            if outp < length bufs \<and> numFrames \<le> length (bufs ! outp)
            then Inr (bufs[outp := replicate numFrames c @ drop numFrames (bufs ! outp)], c)
            else Inl UndefinedBehaviour))"

definition ConstSource :: "real \<Rightarrow> real module" where
  "ConstSource c =
     \<lparr>getNumInputs = 0, getNumOutputs = 1, state = c,
      Module_process = ConstSource_process\<rparr>"

subsection \<open>Example graphs\<close>


definition gain_trio :: "real modular_system" where
  "gain_trio =
     \<lparr>m_modules = [(''x'', GainModule 1), (''y'', GainModule 1), (''z'', GainModule 1)],
      m_connections = [], m_audioBuffers = []\<rparr>"

definition mixer :: "real modular_system" where
  "mixer =
     \<lparr>m_modules = [(''a'', ConstSource (3 / 10)), (''b'', ConstSource (4 / 10)),
                   (''c'', GainModule 1)],
      m_connections = [], m_audioBuffers = []\<rparr>"

definition mixer_cba :: "real modular_system" where
  "mixer_cba =
     \<lparr>m_modules = [(''c'', GainModule 1), (''b'', ConstSource (4 / 10)),
                   (''a'', ConstSource (3 / 10))],
      m_connections = [], m_audioBuffers = []\<rparr>"


text \<open>
  \<open>mixer_wired\<close> is \<open>mixer\<close> with both sources connected to slot 0 of \<open>c\<close> and the buffers as
  \<open>c\<close> finds them once \<open>a\<close> and \<open>b\<close> have run.  \<open>gain_feedback\<close> and \<open>gain_feedback_ba\<close> are the
  same two-node cycle in the two iteration orders, with the samples of an earlier block
  still in the buffers.
\<close>

definition mixer_wired :: "real modular_system" where
  "mixer_wired =
     mixer\<lparr>m_connections :=
             [\<lparr>fromModule = ''a'', outputIndex = 0, toModule = ''c'', inputIndex = 0\<rparr>,
              \<lparr>fromModule = ''b'', outputIndex = 0, toModule = ''c'', inputIndex = 0\<rparr>],
           m_audioBuffers := [[3 / 10, 3 / 10], [4 / 10, 4 / 10], [0, 0]]\<rparr>"


section \<open>Oscillator reset\<close>

text \<open>
  C10.  \<open>reset()\<close> is defined once, in the Oscillator base class, and no subclass overrides
  it: it stores 0 in the phase and touches nothing else.  Frequency and amplitude keep their
  current values, and so does the pulse width of a PulseOsc; none of them goes back to its
  construction-time default.
\<close>

theorem reset_phase_only:
  "m_phase (reset osc) = 0
   \<and> m_frequency (reset osc) = m_frequency osc
   \<and> m_amplitude (reset osc) = m_amplitude osc
   \<and> oscillator.more (reset osc) = oscillator.more osc
   \<and> m_pulseWidth (reset (p :: pulse_osc)) = m_pulseWidth p
   \<and> m_frequency (reset p) = m_frequency p
   \<and> m_amplitude (reset p) = m_amplitude p
   \<and> m_phase (reset p) = 0"
  by (simp add: reset_def)

section \<open>Rejected parameter values\<close>

text \<open>
  C4 (as the code has it).  \<open>setFrequency\<close> and \<open>setAmplitude\<close> guard their argument with
  \<open>assert\<close>, not with an exception.  For \<open>setParameter("frequency", v)\<close> with \<open>v \<le> 0\<close>, and
  for \<open>setParameter("amplitude", v)\<close> with \<open>v < 0\<close>, a build with assertions enabled aborts
  the program, and a build with \<open>NDEBUG\<close> stores the value.  Neither build throws
  \<open>std::invalid_argument\<close> to the caller.  PulseOsc forwards both names to the base class.
\<close>

theorem setParameter_bad_value_asserts:
  "(v \<le> 0 \<longrightarrow>
      Oscillator_setParameter ndebug ''frequency'' v osc =
        (if ndebug then Inr (osc\<lparr>m_frequency := v\<rparr>) else Inl AssertAbort)
    \<and> PulseOsc_setParameter ndebug ''frequency'' v p =
        (if ndebug then Inr (p\<lparr>m_frequency := v\<rparr>) else Inl AssertAbort))
   \<and> (v < 0 \<longrightarrow>
      Oscillator_setParameter ndebug ''amplitude'' v osc =
        (if ndebug then Inr (osc\<lparr>m_amplitude := v\<rparr>) else Inl AssertAbort)
    \<and> PulseOsc_setParameter ndebug ''amplitude'' v p =
        (if ndebug then Inr (p\<lparr>m_amplitude := v\<rparr>) else Inl AssertAbort))"
  by (simp add: Oscillator_setParameter_def PulseOsc_setParameter_def setFrequency_def
      setAmplitude_def cassert_def)

theorem setParameter_bad_value_asserts_witness:
  "(-5 :: real) \<le> 0 \<and> (-5 :: real) < 0
   \<and> Oscillator_setParameter False ''frequency'' (-5) Oscillator_init = Inl AssertAbort
   \<and> Oscillator_setParameter False ''amplitude'' (-5) Oscillator_init = Inl AssertAbort
   \<and> PulseOsc_setParameter True ''frequency'' (-5) PulseOsc_init
       = Inr (PulseOsc_init\<lparr>m_frequency := -5\<rparr>)"
  using setParameter_bad_value_asserts [of "-5" False Oscillator_init PulseOsc_init]
    setParameter_bad_value_asserts [of "-5" True Oscillator_init PulseOsc_init]
  by simp

text \<open>
  The spec's own example, \<open>setParameter(osc, "frequency", -5.0)\<close>, on a freshly constructed
  oscillator: with assertions on the call aborts, with assertions off it returns normally
  and the stored frequency is now \<open>-5\<close>, not the previous 440.
\<close>

theorem setParameter_negative_frequency_counterexample:
  "Oscillator_setParameter False ''frequency'' (-5) Oscillator_init = Inl AssertAbort
   \<and> Oscillator_setParameter True ''frequency'' (-5) Oscillator_init
       = Inr \<lparr>m_frequency = -5, m_amplitude = 1, m_phase = 0\<rparr>
   \<and> Oscillator_setParameter True ''amplitude'' (-1) Oscillator_init
       = Inr \<lparr>m_frequency = 440, m_amplitude = -1, m_phase = 0\<rparr>"
  by (simp add: Oscillator_setParameter_def setFrequency_def setAmplitude_def cassert_def
      Oscillator_init_def)

section \<open>Edge correction\<close>

text \<open>
  C7.  For \<open>t\<close> in \<open>[0, 1)\<close> and \<open>dt\<close> in \<open>(0, 1/2)\<close>: when \<open>t < dt\<close> the result is
  \<open>t' + t' - t'\<^sup>2 - 1\<close> with \<open>t' = t / dt\<close>; when \<open>t > 1 - dt\<close> it is \<open>t'\<^sup>2 + 2 t' + 1\<close> with
  \<open>t' = (t - 1) / dt\<close>; otherwise it is exactly 0.  The bound \<open>dt < 1/2\<close> keeps the two edge
  regions apart, so the order in which the code tests them does not matter.
\<close>

theorem polyBlep_piecewise:
  assumes "0 \<le> t" and "t < 1" and "0 < dt" and "dt < 1 / 2"
  shows "(t < dt \<longrightarrow> polyBlep t dt = t / dt + t / dt - (t / dt)\<^sup>2 - 1)
       \<and> (t > 1 - dt \<longrightarrow> polyBlep t dt = ((t - 1) / dt)\<^sup>2 + 2 * ((t - 1) / dt) + 1)
       \<and> (\<not> t < dt \<and> \<not> t > 1 - dt \<longrightarrow> polyBlep t dt = 0)"
proof (intro conjI impI)
  assume "t < dt"
  then show "polyBlep t dt = t / dt + t / dt - (t / dt)\<^sup>2 - 1"
    by (simp add: polyBlep_def Let_def power2_eq_square)
next
  assume hi: "t > 1 - dt"
  with assms have "\<not> t < dt" by linarith
  with hi show "polyBlep t dt = ((t - 1) / dt)\<^sup>2 + 2 * ((t - 1) / dt) + 1"
    by (simp add: polyBlep_def Let_def power2_eq_square)
next
  assume "\<not> t < dt \<and> \<not> t > 1 - dt"
  then show "polyBlep t dt = 0"
    by (simp add: polyBlep_def)
qed

theorem polyBlep_piecewise_witness:
  "(0::real) \<le> 1 / 8 \<and> (1 / 8 :: real) < 1 \<and> (0::real) < 1 / 4 \<and> (1 / 4 :: real) < 1 / 2
   \<and> polyBlep (1 / 8) (1 / 4) = - (1 / 4)
   \<and> polyBlep (7 / 8) (1 / 4) = 1 / 4
   \<and> polyBlep (1 / 2) (1 / 4) = 0"
  using polyBlep_piecewise [of "1 / 8" "1 / 4"] polyBlep_piecewise [of "7 / 8" "1 / 4"]
    polyBlep_piecewise [of "1 / 2" "1 / 4"]
  by (simp add: power2_eq_square)

section \<open>Unknown parameter names\<close>

text \<open>
  C9.  On a GainModule, \<open>setParameter\<close> with a name other than \<open>"Gain"\<close> returns normally and
  leaves the gain as it was, and \<open>getParameter\<close> with such a name returns \<open>0.0\<close>.  The
  oscillators differ: a name outside \<open>frequency\<close>, \<open>amplitude\<close>, \<open>phase\<close> makes both
  accessors throw \<open>std::invalid_argument\<close>.
\<close>

theorem GainModule_unknown_name_silent:
  assumes "name \<noteq> ''Gain''"
  shows "GainModule_setParameter name v g = g
       \<and> GainModule_getParameter name g = 0
       \<and> (name \<notin> {''frequency'', ''amplitude'', ''phase''} \<longrightarrow>
            Oscillator_setParameter ndebug name v osc
              = Inl (Throw (invalid_argument (''Unknown parameter: '' @ name)))
          \<and> Oscillator_getParameter name osc
              = Inl (Throw (invalid_argument (''Unknown parameter: '' @ name))))"
  using assms
  by (simp add: GainModule_setParameter_def GainModule_getParameter_def
      Oscillator_setParameter_def Oscillator_getParameter_def)

theorem GainModule_unknown_name_silent_witness:
  "''bogus'' \<noteq> ''Gain''
   \<and> GainModule_setParameter ''bogus'' 3 2 = 2
   \<and> GainModule_getParameter ''bogus'' 2 = 0
   \<and> Oscillator_setParameter False ''bogus'' 3 Oscillator_init
       = Inl (Throw (invalid_argument ''Unknown parameter: bogus''))
   \<and> Oscillator_getParameter ''bogus'' Oscillator_init
       = Inl (Throw (invalid_argument ''Unknown parameter: bogus''))"
  using GainModule_unknown_name_silent
    [where name = "''bogus''" and v = 3 and g = 2 and ndebug = False and osc = Oscillator_init]
  by simp

section \<open>Phase stays inside its period\<close>

lemma fmod_nonneg_range:
  assumes "0 \<le> x" and "0 < y"
  shows "0 \<le> fmod x y \<and> fmod x y < y"
proof -
  from assms have q: "0 \<le> x / y" by simp
  then have t: "trunc (x / y) = \<lfloor>x / y\<rfloor>" by (simp add: trunc_def)
  have lo: "of_int \<lfloor>x / y\<rfloor> \<le> x / y" by (rule of_int_floor_le)
  have hi: "x / y < of_int \<lfloor>x / y\<rfloor> + 1" by linarith
  have xy: "x / y * y = x" using assms by simp
  from lo assms have "of_int \<lfloor>x / y\<rfloor> * y \<le> x / y * y"
    by (intro mult_right_mono) simp_all
  then have "of_int \<lfloor>x / y\<rfloor> * y \<le> x" by (simp only: xy)
  moreover from hi assms have "x / y * y < (of_int \<lfloor>x / y\<rfloor> + 1) * y"
    by (intro mult_strict_right_mono) simp_all
  then have "x < (of_int \<lfloor>x / y\<rfloor> + 1) * y" by (simp only: xy)
  ultimately show ?thesis
    by (simp add: fmod_def t algebra_simps)
qed

lemma wrapPhaseScalar_range:
  assumes "0 \<le> p" and "p < 2 * twoPiConstant"
  shows "0 \<le> wrapPhaseScalar p \<and> wrapPhaseScalar p < twoPiConstant"
  using assms by (simp add: wrapPhaseScalar_def)

lemma twoPiConstant_pos: "0 < twoPiConstant"
  by (simp add: twoPiConstant_def piConstant_def)

text \<open>
  C5 (as the code has it).  The oscillators wrap with a single conditional subtraction of
  \<open>2\<pi>\<close>, so one step keeps the phase in \<open>[0, 2\<pi>)\<close> when it starts there and the modulated
  frequency of that frame lies in \<open>[0, sampleRate)\<close>, which makes the increment less than one
  period.  The phase accumulator wraps with \<open>fmod\<close>, whose result has the sign of its
  argument, so one step leaves the phase in \<open>[0, wrap)\<close> when the period is positive and
  phase plus increment is not negative.
\<close>

theorem phase_in_period_after_step:
  "(0 \<le> phase \<and> phase < twoPiConstant \<and> 0 < sampleRate
      \<and> 0 \<le> fst (applyModulationScalar f a fm am)
      \<and> fst (applyModulationScalar f a fm am) < sampleRate \<longrightarrow>
      0 \<le> snd (processScalar_step f a sampleRate fm am phase)
      \<and> snd (processScalar_step f a sampleRate fm am phase) < twoPiConstant)
   \<and> (0 < wrap_arg \<and> 0 \<le> ph + phase_inc \<longrightarrow>
      0 \<le> snd (computeSample wrap_arg ph phase_inc)
      \<and> snd (computeSample wrap_arg ph phase_inc) < wrap wrap_arg)"
proof (intro conjI impI)
  assume h: "0 \<le> phase \<and> phase < twoPiConstant \<and> 0 < sampleRate
      \<and> 0 \<le> fst (applyModulationScalar f a fm am)
      \<and> fst (applyModulationScalar f a fm am) < sampleRate"
  define cf where "cf = fst (applyModulationScalar f a fm am)"
  define inc where "inc = cf * twoPiConstant / sampleRate"
  from h have cf: "0 \<le> cf" "cf < sampleRate" "0 < sampleRate"
    by (simp_all add: cf_def)
  have "cf * twoPiConstant < sampleRate * twoPiConstant"
    using cf twoPiConstant_pos by simp
  then have inc_hi: "inc < twoPiConstant"
    using cf by (simp add: inc_def pos_divide_less_eq mult.commute)
  have inc_lo: "0 \<le> inc"
    using cf twoPiConstant_pos by (simp add: inc_def)
  have step: "snd (processScalar_step f a sampleRate fm am phase) = wrapPhaseScalar (phase + inc)"
    by (simp add: processScalar_step_def Let_def inc_def cf_def split: prod.splits)
  from h inc_lo inc_hi have "0 \<le> phase + inc" "phase + inc < 2 * twoPiConstant"
    by simp_all
  then have r: "0 \<le> wrapPhaseScalar (phase + inc)
      \<and> wrapPhaseScalar (phase + inc) < twoPiConstant"
    by (rule wrapPhaseScalar_range)
  from r step show "0 \<le> snd (processScalar_step f a sampleRate fm am phase)" by simp
  from r step show "snd (processScalar_step f a sampleRate fm am phase) < twoPiConstant" by simp
next
  assume h: "0 < wrap_arg \<and> 0 \<le> ph + phase_inc"
  then have "0 \<le> fmod (ph + phase_inc) (wrap wrap_arg)
      \<and> fmod (ph + phase_inc) (wrap wrap_arg) < wrap wrap_arg"
    by (intro fmod_nonneg_range) (simp_all add: wrap_def)
  then show "0 \<le> snd (computeSample wrap_arg ph phase_inc)"
    and "snd (computeSample wrap_arg ph phase_inc) < wrap wrap_arg"
    by (simp_all add: computeSample_def phasorComputeSample_def Let_def)
qed

theorem phase_in_period_after_step_witness:
  "(0::real) \<le> 0 \<and> 0 < twoPiConstant \<and> (0::real) < 48000
   \<and> 0 \<le> fst (applyModulationScalar 440 1 (Some 60) None)
   \<and> fst (applyModulationScalar 440 1 (Some 60) None) < 48000
   \<and> 0 \<le> snd (processScalar_step 440 1 48000 (Some 60) None 0)
   \<and> snd (processScalar_step 440 1 48000 (Some 60) None 0) < twoPiConstant
   \<and> (0::nat) < 1 \<and> (0::real) \<le> 3 / 4 + 1 / 2
   \<and> 0 \<le> snd (computeSample 1 (3 / 4) (1 / 2))
   \<and> snd (computeSample 1 (3 / 4) (1 / 2)) < wrap 1"
  using phase_in_period_after_step [of 0 48000 440 1 "Some 60" None 1 "3 / 4" "1 / 2"]
  by (simp add: applyModulationScalar_def twoPiConstant_def piConstant_def)

text \<open>
  Three single steps that leave the period.  A sine oscillator at 96 kHz with a 48 kHz
  sample rate, starting at phase 0: the increment is \<open>4\<pi>\<close>, one subtraction leaves \<open>2\<pi>\<close>, which
  is not below \<open>2\<pi>\<close>.  The same oscillator at 440 Hz with a modulation sample of \<open>-1000\<close>: the
  phase goes negative and is never brought back.  A phase accumulator with period 1 and an
  increment of \<open>-1/4\<close> (a negative control sample): \<open>fmod\<close> returns \<open>-1/4\<close>.
\<close>

theorem phase_leaves_period_counterexample:
  "snd (processScalar_step 96000 1 48000 None None 0) = twoPiConstant
   \<and> \<not> snd (processScalar_step 96000 1 48000 None None 0) < twoPiConstant
   \<and> snd (processScalar_step 440 1 48000 (Some (- 1000)) None 0) < 0
   \<and> snd (computeSample 1 0 (- (1 / 4))) = - (1 / 4)
   \<and> \<not> 0 \<le> snd (computeSample 1 0 (- (1 / 4)))"
  by (simp add: processScalar_step_def applyModulationScalar_def wrapPhaseScalar_def
      twoPiConstant_def piConstant_def computeSample_def phasorComputeSample_def fmod_def
      trunc_def wrap_def Let_def ceiling_def)

section \<open>Scalar and unrolled stepping of the phase accumulator\<close>

lemma phasorPerform_perform_loop:
  "phasorPerform n out i phase phase_inc (wrap wrap_arg)
     = perform_loop wrap_arg n out i phase phase_inc"
  by (induction n arbitrary: out i phase) (simp_all add: computeSample_def split: prod.splits)

lemma perform_loop_add:
  "perform_loop wrap_arg (a + b) out i phase phase_inc =
     (case perform_loop wrap_arg a out i phase phase_inc of
        None \<Rightarrow> None
      | Some (out', phase') \<Rightarrow> perform_loop wrap_arg b out' (i + a) phase' phase_inc)"
  by (induction a arbitrary: out i phase) (auto split: prod.splits option.splits)

lemma perform8_loop_perform_loop:
  "perform8_loop wrap_arg m out i phase phase_inc
     = perform_loop wrap_arg (8 * m) out i phase phase_inc"
proof (induction m arbitrary: out i phase)
  case 0
  show ?case by simp
next
  case (Suc m)
  have "8 * Suc m = 8 + 8 * m" by simp
  then have "perform_loop wrap_arg (8 * Suc m) out i phase phase_inc =
     (case perform_loop wrap_arg 8 out i phase phase_inc of
        None \<Rightarrow> None
      | Some (out', phase') \<Rightarrow> perform_loop wrap_arg (8 * m) out' (i + 8) phase' phase_inc)"
    by (simp only: perform_loop_add)
  then show ?case
    by (simp only: perform8_loop.simps phasorPerform_perform_loop Suc.IH
        split: option.splits prod.splits)
qed

lemma computeSample_quarter:
  "computeSample (Suc 0) 0 (1 / 4) = (1 / 4, 1 / 4)"
  "computeSample (Suc 0) (1 / 4) (1 / 4) = (1 / 2, 1 / 2)"
  "computeSample (Suc 0) (1 / 2) (1 / 4) = (3 / 4, 3 / 4)"
  "computeSample (Suc 0) (3 / 4) (1 / 4) = (0, 0)"
  by (simp_all add: computeSample_def phasorComputeSample_def fmod_def trunc_def wrap_def
      Let_def)

text \<open>
  C6 (as the code has it).  \<open>perform8\<close> starts with \<open>n /= 8\<close> and has no loop for the
  remainder: for every initial phase, frequency setting, buffer and block length \<open>n\<close> it
  does exactly what the scalar \<open>perform\<close> does for a block of \<open>8 * (n div 8)\<close> samples.  The
  last \<open>n mod 8\<close> samples are not written and the phase is not advanced for them.  When \<open>n\<close>
  is a multiple of 8 the two modes write the same samples and leave the same final phase.
\<close>

theorem perform8_is_perform_on_whole_groups:
  "perform8 wrap_arg out n P = perform wrap_arg out (8 * (n div 8)) P
   \<and> (8 dvd n \<longrightarrow> perform8 wrap_arg out n P = perform wrap_arg out n P)"
  by (auto simp add: perform8_def perform_def perform8_loop_perform_loop Let_def)

theorem perform8_is_perform_on_whole_groups_witness:
  "(8::nat) dvd 8
   \<and> perform8 1 (replicate 8 0) 8 (Phasor_setFrequency 1 (1 / 4) Phasor_init)
     = perform 1 (replicate 8 0) 8 (Phasor_setFrequency 1 (1 / 4) Phasor_init)
   \<and> perform 1 (replicate 8 0) 8 (Phasor_setFrequency 1 (1 / 4) Phasor_init)
     = Some ([1 / 4, 1 / 2, 3 / 4, 0, 1 / 4, 1 / 2, 3 / 4, 0],
             \<lparr>phasor_phase = 0, phasor_phase_inc = 1 / 4, freq_factor = 0\<rparr>)"
proof -
  have "perform 1 (replicate 8 0) 8 (Phasor_setFrequency 1 (1 / 4) Phasor_init)
     = Some ([1 / 4, 1 / 2, 3 / 4, 0, 1 / 4, 1 / 2, 3 / 4, 0],
             \<lparr>phasor_phase = 0, phasor_phase_inc = 1 / 4, freq_factor = 0\<rparr>)"
    by (simp add: perform_def Phasor_setFrequency_def Phasor_init_def wrap_def
        computeSample_quarter eval_nat_numeral)
  then show ?thesis
    using perform8_is_perform_on_whole_groups
      [of 1 "replicate 8 0" 8 "Phasor_setFrequency 1 (1 / 4) Phasor_init"]
    by simp
qed

text \<open>
  A block of three samples, period 1, increment \<open>1/4\<close>, phase 0: the scalar mode writes
  \<open>1/4, 1/2, 3/4\<close> and ends at phase \<open>3/4\<close>; the unrolled mode writes nothing and ends at
  phase 0.
\<close>

theorem perform8_drops_remainder_counterexample:
  "perform 1 [0, 0, 0] 3 (Phasor_setFrequency 1 (1 / 4) Phasor_init)
     = Some ([1 / 4, 1 / 2, 3 / 4],
             \<lparr>phasor_phase = 3 / 4, phasor_phase_inc = 1 / 4, freq_factor = 0\<rparr>)
   \<and> perform8 1 [0, 0, 0] 3 (Phasor_setFrequency 1 (1 / 4) Phasor_init)
     = Some ([0, 0, 0], \<lparr>phasor_phase = 0, phasor_phase_inc = 1 / 4, freq_factor = 0\<rparr>)
   \<and> perform8 1 [0, 0, 0] 3 (Phasor_setFrequency 1 (1 / 4) Phasor_init)
     \<noteq> perform 1 [0, 0, 0] 3 (Phasor_setFrequency 1 (1 / 4) Phasor_init)"
proof -
  have scalar: "perform 1 [0, 0, 0] 3 (Phasor_setFrequency 1 (1 / 4) Phasor_init)
     = Some ([1 / 4, 1 / 2, 3 / 4],
             \<lparr>phasor_phase = 3 / 4, phasor_phase_inc = 1 / 4, freq_factor = 0\<rparr>)"
    by (simp add: perform_def Phasor_setFrequency_def Phasor_init_def wrap_def
        computeSample_quarter eval_nat_numeral)
  have unrolled: "perform8 1 [0, 0, 0] 3 (Phasor_setFrequency 1 (1 / 4) Phasor_init)
     = Some ([0, 0, 0], \<lparr>phasor_phase = 0, phasor_phase_inc = 1 / 4, freq_factor = 0\<rparr>)"
    by (simp add: perform8_def Phasor_setFrequency_def Phasor_init_def wrap_def)
  from scalar unrolled show ?thesis
    by simp
qed

section \<open>Failures in sequence\<close>



section \<open>Inputs fed from several connections\<close>

lemma setUpConnections_length:
  "setUpConnections mods name conns ins = Some inputs \<Longrightarrow> length inputs = length ins"
  by (induction conns arbitrary: ins) (auto split: if_splits option.splits)

lemma setUpConnections_None_iff:
  "setUpConnections mods name conns ins = None \<longleftrightarrow>
     (\<exists>conn\<in>set conns. toModule conn = name
        \<and> m_modules_find mods (fromModule conn) \<noteq> None \<and> length ins \<le> inputIndex conn)"
  by (induction conns arbitrary: ins) (auto split: option.splits)

lemma setUpConnections_slot:
  assumes "setUpConnections mods name conns ins = Some inputs" and "slot < length ins"
  shows "inputs ! slot =
     (let ps = filter (\<lambda>conn. toModule conn = name \<and> inputIndex conn = slot
                               \<and> m_modules_find mods (fromModule conn) \<noteq> None) conns
      in if ps = [] then ins ! slot else m_modules_find mods (fromModule (last ps)))"
  using assms
proof (induction conns arbitrary: ins)
  case Nil
  then show ?case by simp
next
  case (Cons c conns)
  show ?case
  proof (cases "toModule c = name \<and> m_modules_find mods (fromModule c) \<noteq> None")
    case False
    with Cons.prems have "setUpConnections mods name conns ins = Some inputs"
      by (auto split: if_splits option.splits)
    from Cons.IH [OF this Cons.prems(2)] False show ?thesis
      by (auto simp add: Let_def)
  next
    case True
    then obtain k where k: "m_modules_find mods (fromModule c) = Some k" by auto
    with True Cons.prems have inb: "inputIndex c < length ins"
      and rec: "setUpConnections mods name conns (ins[inputIndex c := Some k]) = Some inputs"
      by (auto split: if_splits)
    from Cons.prems(2) have "slot < length (ins[inputIndex c := Some k])" by simp
    from Cons.IH [OF rec this] True k inb Cons.prems(2) show ?thesis
      by (auto simp add: Let_def nth_list_update)
  qed
qed

lemma setUpConnections_last_writer:
  "setUpConnections mods name conns (replicate n None) =
     (if \<exists>conn\<in>set conns. toModule conn = name
           \<and> m_modules_find mods (fromModule conn) \<noteq> None \<and> n \<le> inputIndex conn
      then None
      else Some (map (last_writer mods name conns) [0..<n]))"
proof (cases "setUpConnections mods name conns (replicate n None)")
  case None
  then show ?thesis
    using setUpConnections_None_iff [of mods name conns "replicate n None"] by simp
next
  case (Some inputs)
  then have ok: "\<not> (\<exists>conn\<in>set conns. toModule conn = name
           \<and> m_modules_find mods (fromModule conn) \<noteq> None \<and> n \<le> inputIndex conn)"
    using setUpConnections_None_iff [of mods name conns "replicate n None"] by simp
  from Some have len: "length inputs = n"
    by (simp add: setUpConnections_length)
  have "inputs = map (last_writer mods name conns) [0..<n]"
  proof (rule nth_equalityI)
    show "length inputs = length (map (last_writer mods name conns) [0..<n])"
      by (simp add: len)
  next
    fix slot assume "slot < length inputs"
    then have slot: "slot < n" by (simp add: len)
    with setUpConnections_slot [OF Some, of slot]
    show "inputs ! slot = map (last_writer mods name conns) [0..<n] ! slot"
      by (simp add: last_writer_def Let_def)
  qed
  with Some ok show ?thesis by simp
qed

text \<open>
  C1 (as the code has it).  \<open>process\<close> never adds buffers.  It resizes the buffers and runs
  its loop over the registered modules, and whenever the loop reaches a module, in whatever
  state the engine is then, it calls the node with every input slot bound to one buffer
  only: the buffer of the source of the last connection, in connection-list order, that
  targets this slot of this module from a registered module.  A slot that no such
  connection targets is unbound.  The node reads what that one buffer holds at that
  moment.  The call is not reached when the input vector cannot be allocated or when a
  connection from a registered module targets an input index the module does not have.
\<close>

theorem process_binds_slot_to_last_connection:
  "process_loop alloc numFrames ((name, node) # rest) sys =
     (if alloc < getNumInputs node then Inl (Throw bad_alloc)
      else if \<exists>conn\<in>set (m_connections sys). toModule conn = name
                \<and> m_modules_find (m_modules sys) (fromModule conn) \<noteq> None
                \<and> getNumInputs node \<le> inputIndex conn
      then Inl UndefinedBehaviour
      else (case m_modules_find (m_modules sys) name of
              None \<Rightarrow> Inl UndefinedBehaviour
            | Some moduleIndex \<Rightarrow>
                and_then (vector_resize_alloc alloc (getNumOutputs node) moduleIndex [])
                  (\<lambda>outputs.
                     and_then
                       (Module_process node (state node)
                          (map (last_writer (m_modules sys) name (m_connections sys))
                             [0..<getNumInputs node])
                          outputs numFrames (m_audioBuffers sys))
                       (\<lambda>(bufs, st).
                          process_loop alloc numFrames rest
                            (sys\<lparr>m_modules :=
                                   (m_modules sys)
                                     [moduleIndex := (name, node\<lparr>state := st\<rparr>)],
                                 m_audioBuffers := bufs\<rparr>)))))
   \<and> process alloc numFrames sys =
       and_then (vector_resize_alloc alloc (length (m_modules sys)) [] (m_audioBuffers sys))
         (\<lambda>bufs. and_then (resize_each alloc numFrames bufs)
            (\<lambda>bufs. process_loop alloc numFrames (m_modules sys)
                       (sys\<lparr>m_audioBuffers := bufs\<rparr>)))"
proof
  have grow: "vector_resize_alloc alloc (getNumInputs node) None []
      = (if alloc < getNumInputs node then Inl (Throw bad_alloc)
         else Inr (replicate (getNumInputs node) (None :: nat option)))"
    by (auto simp add: vector_resize_alloc_def vector_resize_def)
  show "process_loop alloc numFrames ((name, node) # rest) sys =
     (if alloc < getNumInputs node then Inl (Throw bad_alloc)
      else if \<exists>conn\<in>set (m_connections sys). toModule conn = name
                \<and> m_modules_find (m_modules sys) (fromModule conn) \<noteq> None
                \<and> getNumInputs node \<le> inputIndex conn
      then Inl UndefinedBehaviour
      else (case m_modules_find (m_modules sys) name of
              None \<Rightarrow> Inl UndefinedBehaviour
            | Some moduleIndex \<Rightarrow>
                and_then (vector_resize_alloc alloc (getNumOutputs node) moduleIndex [])
                  (\<lambda>outputs.
                     and_then
                       (Module_process node (state node)
                          (map (last_writer (m_modules sys) name (m_connections sys))
                             [0..<getNumInputs node])
                          outputs numFrames (m_audioBuffers sys))
                       (\<lambda>(bufs, st).
                          process_loop alloc numFrames rest
                            (sys\<lparr>m_modules :=
                                   (m_modules sys)
                                     [moduleIndex := (name, node\<lparr>state := st\<rparr>)],
                                 m_audioBuffers := bufs\<rparr>)))))"
    by (auto simp add: grow and_then_def setUpConnections_last_writer)
next
  show "process alloc numFrames sys =
       and_then (vector_resize_alloc alloc (length (m_modules sys)) [] (m_audioBuffers sys))
         (\<lambda>bufs. and_then (resize_each alloc numFrames bufs)
            (\<lambda>bufs. process_loop alloc numFrames (m_modules sys)
                       (sys\<lparr>m_audioBuffers := bufs\<rparr>)))"
    by (simp add: process_def)
qed

theorem process_binds_slot_to_last_connection_witness:
  "\<not> 8 < getNumInputs (GainModule 1)
   \<and> \<not> (\<exists>conn\<in>set (m_connections mixer_wired). toModule conn = ''c''
          \<and> m_modules_find (m_modules mixer_wired) (fromModule conn) \<noteq> None
          \<and> getNumInputs (GainModule 1) \<le> inputIndex conn)
   \<and> map (last_writer (m_modules mixer_wired) ''c'' (m_connections mixer_wired))
         [0..<getNumInputs (GainModule 1)] = [Some 1]
   \<and> process_loop 8 2 [(''c'', GainModule 1)] mixer_wired
       = Inr (mixer_wired\<lparr>m_audioBuffers := [[3 / 10, 3 / 10], [4 / 10, 4 / 10], [4 / 10, 4 / 10]]\<rparr>)"
  using process_binds_slot_to_last_connection
    [of 8 2 "''c''" "GainModule 1" "[]" mixer_wired]
  by (simp add: mixer_wired_def mixer_def GainModule_def GainModule_process_def
      ConstSource_def last_writer_def and_then_def vector_resize_alloc_def vector_resize_def
      eval_nat_numeral)

text \<open>
  The example of the specification: \<open>a\<close> emits 0.3 and \<open>b\<close> emits 0.4 into slot 0 of \<open>c\<close>, a
  gain node with its default gain 1, whose output therefore shows what it received.  The
  slot of \<open>c\<close> is bound to the buffer of \<open>b\<close> alone.  When the map iterates \<open>a, b, c\<close>, \<open>c\<close>
  receives 0.4 in both frames.  When it iterates \<open>c, b, a\<close>, \<open>c\<close> runs before \<open>b\<close> has written:
  it receives 0 in the first block and 0.4 in the second.  It never receives 0.7.
\<close>

theorem two_producers_counterexample:
  "map_sum id m_connections
     (and_then (connect ''a'' 0 ''c'' 0 mixer) (connect ''b'' 0 ''c'' 0))
     = Inr [\<lparr>fromModule = ''a'', outputIndex = 0, toModule = ''c'', inputIndex = 0\<rparr>,
            \<lparr>fromModule = ''b'', outputIndex = 0, toModule = ''c'', inputIndex = 0\<rparr>]
   \<and> map_sum id m_audioBuffers
     (and_then (and_then (connect ''a'' 0 ''c'' 0 mixer) (connect ''b'' 0 ''c'' 0))
        (process 8 2))
     = Inr [[3 / 10, 3 / 10], [4 / 10, 4 / 10], [4 / 10, 4 / 10]]
   \<and> map_sum id m_audioBuffers
     (and_then (and_then (connect ''a'' 0 ''c'' 0 mixer_cba) (connect ''b'' 0 ''c'' 0))
        (process 8 2))
     = Inr [[0, 0], [4 / 10, 4 / 10], [3 / 10, 3 / 10]]
   \<and> map_sum id m_audioBuffers
     (and_then (and_then (and_then (connect ''a'' 0 ''c'' 0 mixer_cba)
        (connect ''b'' 0 ''c'' 0)) (process 8 2)) (process 8 2))
     = Inr [[4 / 10, 4 / 10], [4 / 10, 4 / 10], [3 / 10, 3 / 10]]"
  by (simp add: mixer_def mixer_cba_def connect_def and_then_def process_def
      vector_resize_alloc_def vector_resize_def
      GainModule_def GainModule_process_def ConstSource_def ConstSource_process_def
      Let_def eval_nat_numeral)

section \<open>Cyclic graphs\<close>


















section \<open>Connecting with arbitrary indices\<close>

lemma connect_checks_names_only:
  assumes "m_modules_find (m_modules sys) fromM \<noteq> None"
    and "m_modules_find (m_modules sys) toM \<noteq> None"
  shows "connect fromM outputIdx toM inputIdx sys =
           Inr (sys\<lparr>m_connections := m_connections sys @
                  [\<lparr>fromModule = fromM, outputIndex = outputIdx,
                    toModule = toM, inputIndex = inputIdx\<rparr>]\<rparr>)"
  using assms by (simp add: connect_def)

text \<open>
  C3.  The claim is that \<open>connect\<close> refuses an output index beyond the source's declared
  outputs, or an input index beyond the destination's declared inputs, and leaves the
  connection list as it was.  The code checks the two names and never the indices, and
  \<open>process\<close> later uses the stored input index unchecked.  Here \<open>a\<close> is a source with one
  output and \<open>c\<close> a gain node with one input: \<open>connect("a", 5, "c", 7)\<close> returns normally, the
  connection list, empty before, now holds the connection, and the next \<open>process\<close> reaches
  \<open>c\<close> and stores into \<open>inputs[7]\<close> of a one-element vector, which is undefined behaviour,
  in either iteration order.  With the valid indices \<open>connect("a", 0, "c", 0)\<close> the same
  graph processes normally.
\<close>

theorem connect_bad_index_accepted:
  "getNumOutputs (ConstSource (3 / 10)) = 1 \<and> getNumInputs (GainModule 1) = 1
   \<and> m_connections mixer = []
   \<and> map_sum id m_connections (connect ''a'' 5 ''c'' 7 mixer)
       = Inr [\<lparr>fromModule = ''a'', outputIndex = 5, toModule = ''c'', inputIndex = 7\<rparr>]
   \<and> and_then (connect ''a'' 5 ''c'' 7 mixer) (process 8 2) = Inl UndefinedBehaviour
   \<and> and_then (connect ''a'' 5 ''c'' 7 mixer_cba) (process 8 2) = Inl UndefinedBehaviour
   \<and> map_sum id m_audioBuffers (and_then (connect ''a'' 0 ''c'' 0 mixer) (process 8 2))
       = Inr [[3 / 10, 3 / 10], [4 / 10, 4 / 10], [3 / 10, 3 / 10]]"
  by (simp add: mixer_def mixer_cba_def connect_def and_then_def process_def
      vector_resize_alloc_def vector_resize_def
      GainModule_def GainModule_process_def ConstSource_def ConstSource_process_def
      Let_def eval_nat_numeral)

section \<open>Connect followed by disconnect\<close>

lemma erase_first_remove1:
  "erase_first (\<lambda>conn. fromModule conn = f \<and> outputIndex conn = oi
                         \<and> toModule conn = t \<and> inputIndex conn = ii) conns
   = remove1 \<lparr>fromModule = f, outputIndex = oi, toModule = t, inputIndex = ii\<rparr> conns"
proof (induction conns)
  case Nil
  show ?case by simp
next
  case (Cons c conns)
  have "(fromModule c = f \<and> outputIndex c = oi \<and> toModule c = t \<and> inputIndex c = ii)
        \<longleftrightarrow> \<lparr>fromModule = f, outputIndex = oi, toModule = t, inputIndex = ii\<rparr> = c"
    by (cases c) auto
  with Cons show ?case by simp
qed

text \<open>
  C8 (as the code has it).  \<open>connect\<close> appends at the end of the list and \<open>disconnect\<close>
  erases the first connection equal to the tuple.  With both modules registered: if the
  tuple is not in the list yet, connect followed by disconnect gives back exactly the
  state before, and a disconnect alone changes nothing.  If the tuple is already in the
  list, the pair removes its first occurrence and leaves the new copy at the end, so the
  list has the same connections, possibly in another order.
\<close>

theorem connect_disconnect_roundtrip:
  assumes "m_modules_find (m_modules sys) x \<noteq> None"
    and "m_modules_find (m_modules sys) y \<noteq> None"
  shows "(\<lparr>fromModule = x, outputIndex = oi, toModule = y, inputIndex = ii\<rparr>
            \<notin> set (m_connections sys) \<longrightarrow>
          and_then (connect x oi y ii sys) (\<lambda>s. Inr (disconnect x oi y ii s)) = Inr sys
          \<and> disconnect x oi y ii sys = sys)
       \<and> (\<lparr>fromModule = x, outputIndex = oi, toModule = y, inputIndex = ii\<rparr>
            \<in> set (m_connections sys) \<longrightarrow>
          and_then (connect x oi y ii sys) (\<lambda>s. Inr (disconnect x oi y ii s))
            = Inr (sys\<lparr>m_connections :=
                     remove1 \<lparr>fromModule = x, outputIndex = oi, toModule = y, inputIndex = ii\<rparr>
                       (m_connections sys)
                     @ [\<lparr>fromModule = x, outputIndex = oi, toModule = y, inputIndex = ii\<rparr>]\<rparr>))"
  using assms
  by (simp add: connect_def disconnect_def and_then_def erase_first_remove1 remove1_append
      remove1_idem)

theorem connect_disconnect_roundtrip_witness:
  "m_modules_find (m_modules gain_trio) ''x'' \<noteq> None
   \<and> m_modules_find (m_modules gain_trio) ''y'' \<noteq> None
   \<and> \<lparr>fromModule = ''x'', outputIndex = 0, toModule = ''y'', inputIndex = 0\<rparr>
        \<notin> set (m_connections gain_trio)
   \<and> and_then (connect ''x'' 0 ''y'' 0 gain_trio) (\<lambda>s. Inr (disconnect ''x'' 0 ''y'' 0 s))
        = Inr gain_trio
   \<and> disconnect ''x'' 0 ''y'' 0 gain_trio = gain_trio
   \<and> \<lparr>fromModule = ''x'', outputIndex = 0, toModule = ''y'', inputIndex = 0\<rparr>
        \<in> set (m_connections (gain_trio\<lparr>m_connections :=
             [\<lparr>fromModule = ''x'', outputIndex = 0, toModule = ''y'', inputIndex = 0\<rparr>,
              \<lparr>fromModule = ''x'', outputIndex = 0, toModule = ''z'', inputIndex = 0\<rparr>]\<rparr>))
   \<and> and_then
        (connect ''x'' 0 ''y'' 0 (gain_trio\<lparr>m_connections :=
             [\<lparr>fromModule = ''x'', outputIndex = 0, toModule = ''y'', inputIndex = 0\<rparr>,
              \<lparr>fromModule = ''x'', outputIndex = 0, toModule = ''z'', inputIndex = 0\<rparr>]\<rparr>))
        (\<lambda>s. Inr (disconnect ''x'' 0 ''y'' 0 s))
        = Inr (gain_trio\<lparr>m_connections :=
             [\<lparr>fromModule = ''x'', outputIndex = 0, toModule = ''z'', inputIndex = 0\<rparr>,
              \<lparr>fromModule = ''x'', outputIndex = 0, toModule = ''y'', inputIndex = 0\<rparr>]\<rparr>)"
proof -
  let ?busy = "gain_trio\<lparr>m_connections :=
             [\<lparr>fromModule = ''x'', outputIndex = 0, toModule = ''y'', inputIndex = 0\<rparr>,
              \<lparr>fromModule = ''x'', outputIndex = 0, toModule = ''z'', inputIndex = 0\<rparr>]\<rparr>"
  have x: "m_modules_find (m_modules gain_trio) ''x'' \<noteq> None"
    by (simp add: gain_trio_def)
  have y: "m_modules_find (m_modules gain_trio) ''y'' \<noteq> None"
    by (simp add: gain_trio_def)
  have absent: "\<lparr>fromModule = ''x'', outputIndex = 0, toModule = ''y'', inputIndex = 0\<rparr>
        \<notin> set (m_connections gain_trio)"
    by (simp add: gain_trio_def)
  have x': "m_modules_find (m_modules ?busy) ''x'' \<noteq> None"
    by (simp add: gain_trio_def)
  have y': "m_modules_find (m_modules ?busy) ''y'' \<noteq> None"
    by (simp add: gain_trio_def)
  from x y absent connect_disconnect_roundtrip [OF x y, of 0 0]
    connect_disconnect_roundtrip [OF x' y', of 0 0]
  show ?thesis
    by simp
qed

text \<open>
  Three gain nodes, connected \<open>x \<rightarrow> y\<close> and then \<open>x \<rightarrow> z\<close>.  Connecting \<open>x \<rightarrow> y\<close> once more and
  disconnecting it leaves \<open>x \<rightarrow> z\<close> before \<open>x \<rightarrow> y\<close>: the list is not the one before the
  connect.
\<close>

theorem connect_disconnect_reorders_counterexample:
  "map_sum id m_connections
     (and_then (connect ''x'' 0 ''y'' 0 gain_trio) (connect ''x'' 0 ''z'' 0))
     = Inr [\<lparr>fromModule = ''x'', outputIndex = 0, toModule = ''y'', inputIndex = 0\<rparr>,
            \<lparr>fromModule = ''x'', outputIndex = 0, toModule = ''z'', inputIndex = 0\<rparr>]
   \<and> map_sum id m_connections
     (and_then (and_then (and_then (connect ''x'' 0 ''y'' 0 gain_trio) (connect ''x'' 0 ''z'' 0))
        (connect ''x'' 0 ''y'' 0)) (\<lambda>s. Inr (disconnect ''x'' 0 ''y'' 0 s)))
     = Inr [\<lparr>fromModule = ''x'', outputIndex = 0, toModule = ''z'', inputIndex = 0\<rparr>,
            \<lparr>fromModule = ''x'', outputIndex = 0, toModule = ''y'', inputIndex = 0\<rparr>]"
  by (simp add: gain_trio_def connect_def disconnect_def and_then_def)

end
